theory Spec2Isabelle
  imports Main "HOL-Library.Multiset"
begin

section \<open>AsyncPool: a bounded worker pool on a cooperative event loop\<close>

text \<open>
  The embedding follows \<^verbatim>\<open>src/app/AsyncPool.py\<close>. The pool runs on one asyncio event
  loop: between two \<^verbatim>\<open>await\<close>s a coroutine runs alone, so every stretch of code
  between two suspension points is one atomic step of the model. The suspension points are
  \<^verbatim>\<open>await self._queue.get()\<close> and \<^verbatim>\<open>await asyncio.wait_for(...)\<close> in the worker
  loop, \<^verbatim>\<open>await self._queue.put(...)\<close> in \<^verbatim>\<open>push\<close> and \<^verbatim>\<open>join\<close>, and
  \<^verbatim>\<open>await asyncio.gather(...)\<close> in \<^verbatim>\<open>join\<close>.

  What the caller supplies is opaque: the arguments of a job and the value a job returns
  are natural numbers, the outcome of \<^verbatim>\<open>worker_co\<close> under \<^verbatim>\<open>wait_for\<close> is an input of
  the step that resumes the worker, and each reading of the clock (\<^verbatim>\<open>self._time()\<close>) is
  an input of \<^verbatim>\<open>push\<close>. A reading of the clock is a \<^verbatim>\<open>datetime\<close>, here an integer
  number of microseconds, and the difference of two readings is a \<^verbatim>\<open>timedelta\<close>.

  The coroutines of the model are those of the pool and of its callers: \<^verbatim>\<open>start\<close>,
  \<^verbatim>\<open>push\<close>, \<^verbatim>\<open>join\<close> and the worker loops. No task is cancelled from outside, and a
  future that \<^verbatim>\<open>push\<close> has returned is resolved by the pool alone: a caller that
  cancels one is not part of the model. What the event loop does with an exception that
  has ended a task is not part of it either; \<^verbatim>\<open>gather\<close> re-raises it in \<^verbatim>\<open>join\<close>.
\<close>

subsection \<open>Data\<close>

type_synonym args = nat
type_synonym val = nat

datatype exn =
    KeyboardInterrupt
  | MemoryError
  | SystemExit
  | TimeoutError           \<comment> \<open>raised by \<^verbatim>\<open>push\<close>, line 134\<close>
  | WaitForTimeoutError    \<comment> \<open>raised by \<^verbatim>\<open>asyncio.wait_for\<close> when \<^verbatim>\<open>max_task_time\<close> runs out\<close>
  | PoolException          \<comment> \<open>the \<^verbatim>\<open>Exception\<close> of line 183\<close>
  | AssertionError         \<comment> \<open>the \<^verbatim>\<open>assert\<close> of line 149\<close>
  | InvalidStateError      \<comment> \<open>\<^verbatim>\<open>set_result\<close>/\<^verbatim>\<open>set_exception\<close> on a future that is done\<close>
  | ZeroDivisionError      \<comment> \<open>\<^verbatim>\<open>% self._log_every_n\<close> with \<^verbatim>\<open>log_every_n = 0\<close>\<close>
  | TypeError              \<comment> \<open>\<^verbatim>\<open>timedelta > int\<close> at line 133\<close>
  | WorkerError nat        \<comment> \<open>any other exception of \<^verbatim>\<open>worker_co\<close>\<close>

text \<open>
  The value given as \<^verbatim>\<open>job_accept_duration\<close>. The annotation (\<^verbatim>\<open>int\<close>) and the
  docstring ("maximum number of seconds") ask for a number; line 133 compares it with a
  \<^verbatim>\<open>timedelta\<close>, and Python defines \<^verbatim>\<open>timedelta > x\<close> only for a \<^verbatim>\<open>timedelta\<close>
  \<^verbatim>\<open>x\<close> (here in microseconds); for a number it raises \<^verbatim>\<open>TypeError\<close>.
\<close>

datatype duration = Seconds int | Timedelta int

text \<open>The state of an \<^verbatim>\<open>asyncio.Future\<close>.\<close>

datatype future = Pending | Result val | Failed exn

text \<open>
  What travels through the queue: a \<^verbatim>\<open>Terminator()\<close> or the tuple
  \<^verbatim>\<open>(future, args, kwargs)\<close>, whose future is \<^verbatim>\<open>None\<close> or a reference into the
  store of futures.
\<close>

datatype item = Terminator | Work "nat option" args

text \<open>
  A task running \<^verbatim>\<open>_worker_loop\<close>: suspended in \<^verbatim>\<open>queue.get()\<close>, suspended in
  \<^verbatim>\<open>wait_for\<close> with the future and arguments of its item, returned after the
  \<^verbatim>\<open>break\<close>, or ended by an exception that left the loop.
\<close>

datatype worker = Idle | Running "nat option" args | Retired | Crashed exn

text \<open>What \<^verbatim>\<open>await asyncio.wait_for(self._worker_co(...), ...)\<close> does when it resumes.\<close>

datatype outcome = Returns val | Raises exn

datatype level = INFO | DEBUG | EXCEPTION

datatype message =
    Worker_call_failed | Pushed_items | Received_new_job | Joining | Exception_joining | Completed

text \<open>
  The coroutine of \<^verbatim>\<open>join\<close>: not running, in the loop of line 170 with so many
  \<^verbatim>\<open>Terminator\<close>s still to put, or suspended in \<^verbatim>\<open>gather\<close>.
\<close>

datatype joiner = NotJoining | Putting nat | Gathering

text \<open>
  The fields of \<^verbatim>\<open>AsyncPool\<close> (without the leading underscore), the parts of
  \<^verbatim>\<open>asyncio.Queue\<close> the code relies on (\<^verbatim>\<open>queue_maxsize\<close>, the items, the count of
  unfinished tasks, the \<^verbatim>\<open>put\<close> calls that wait for a free slot), the store of futures
  created by \<^verbatim>\<open>push\<close>, the records the logger has received, and the coroutine of
  \<^verbatim>\<open>join\<close>.
\<close>

record pool =
  num_workers :: int
  queue_maxsize :: int
  queue :: "item list"
  unfinished_tasks :: int
  putters :: "(nat option \<times> args) list"
  workers :: "worker list option"
  exceptions :: bool
  job_accept_duration :: "duration option"
  first_push_dt :: "int option"
  max_task_time :: "int option"
  return_futures :: bool
  raise_on_join :: bool
  total_queued :: int
  log_every_n :: "int option"
  active_workers :: int
  futures :: "future list"
  logger :: "(level \<times> message) list"
  joiner :: joiner

text \<open>\<^verbatim>\<open>__init__\<close>, lines 37 to 54; \<^verbatim>\<open>load_factor\<close> defaults to 1.\<close>

definition AsyncPool ::
  "int \<Rightarrow> int \<Rightarrow> duration option \<Rightarrow> int option \<Rightarrow> bool \<Rightarrow> bool \<Rightarrow> int option \<Rightarrow> pool"
  where
  "AsyncPool n load_factor accept_duration task_time ret_futures raise_join every_n =
     \<lparr> num_workers = n,
       queue_maxsize = n * load_factor,
       queue = [],
       unfinished_tasks = 0,
       putters = [],
       workers = None,
       exceptions = False,
       job_accept_duration = accept_duration,
       first_push_dt = None,
       max_task_time = task_time,
       return_futures = ret_futures,
       raise_on_join = raise_join,
       total_queued = 0,
       log_every_n = every_n,
       active_workers = 0,
       futures = [],
       logger = [],
       joiner = NotJoining \<rparr>"

subsection \<open>The queue, the futures, the logger\<close>

text \<open>
  \<^verbatim>\<open>asyncio.Queue.full\<close>: a queue whose \<^verbatim>\<open>maxsize\<close> is zero or negative is never
  full.
\<close>

definition queue_full :: "pool \<Rightarrow> bool" where
  "queue_full s = (if queue_maxsize s \<le> 0 then False
                   else queue_maxsize s \<le> int (length (queue s)))"

text \<open>
  \<^verbatim>\<open>put_nowait\<close> appends and counts the item as unfinished; \<^verbatim>\<open>task_done\<close> counts one
  item less. (\<^verbatim>\<open>task_done\<close> raises \<^verbatim>\<open>ValueError\<close> when called more often than items
  were put; the worker calls it once for each item it has taken.)
\<close>

definition put_nowait :: "item \<Rightarrow> pool \<Rightarrow> pool" where
  "put_nowait x s = s\<lparr>queue := queue s @ [x], unfinished_tasks := unfinished_tasks s + 1\<rparr>"

definition task_done :: "pool \<Rightarrow> pool" where
  "task_done s = s\<lparr>unfinished_tasks := unfinished_tasks s - 1\<rparr>"

text \<open>
  Futures live in a store, a list indexed by their references. A new future is pending;
  \<^verbatim>\<open>set_result\<close> and \<^verbatim>\<open>set_exception\<close> resolve a pending future and raise
  \<^verbatim>\<open>InvalidStateError\<close> on any other.
\<close>

definition new_future :: "pool \<Rightarrow> nat \<times> pool" where
  "new_future s = (length (futures s), s\<lparr>futures := futures s @ [Pending]\<rparr>)"

definition is_pending :: "nat \<Rightarrow> pool \<Rightarrow> bool" where
  "is_pending f s = (f < length (futures s) \<and> futures s ! f = Pending)"

definition set_result :: "nat \<Rightarrow> val \<Rightarrow> pool \<Rightarrow> exn + pool" where
  "set_result f v s =
     (if is_pending f s then Inr (s\<lparr>futures := (futures s)[f := Result v]\<rparr>)
      else Inl InvalidStateError)"

definition set_exception :: "nat \<Rightarrow> exn \<Rightarrow> pool \<Rightarrow> exn + pool" where
  "set_exception f e s =
     (if is_pending f s then Inr (s\<lparr>futures := (futures s)[f := Failed e]\<rparr>)
      else Inl InvalidStateError)"

text \<open>The logger keeps the records it receives, level and message, in order.\<close>

definition log_record :: "level \<Rightarrow> message \<Rightarrow> pool \<Rightarrow> pool" where
  "log_record l m s = s\<lparr>logger := logger s @ [(l, m)]\<rparr>"

subsection \<open>The worker loop\<close>

definition set_worker :: "nat \<Rightarrow> worker \<Rightarrow> pool \<Rightarrow> pool" where
  "set_worker i w s = s\<lparr>workers := map_option (\<lambda>ws. ws[i := w]) (workers s)\<rparr>"

text \<open>The \<^verbatim>\<open>finally\<close> clause, lines 89 to 92.\<close>

definition worker_finally :: "bool \<Rightarrow> pool \<Rightarrow> pool" where
  "worker_finally got_obj s =
     (let s1 = s\<lparr>active_workers := active_workers s - 1\<rparr>
      in if got_obj then task_done s1 else s1)"

text \<open>
  Lines 62 to 68, when \<^verbatim>\<open>queue.get()\<close> returns \<^verbatim>\<open>x\<close> to worker \<^verbatim>\<open>i\<close>: a
  \<^verbatim>\<open>Terminator\<close> leaves the loop through the \<^verbatim>\<open>finally\<close> clause; a job is counted in
  \<^verbatim>\<open>active_workers\<close> and the worker suspends in \<^verbatim>\<open>wait_for\<close>.
\<close>

definition worker_got :: "nat \<Rightarrow> item \<Rightarrow> pool \<Rightarrow> pool" where
  "worker_got i x s =
     (case x of
        Terminator \<Rightarrow> set_worker i Retired (worker_finally True s)
      | Work fut a \<Rightarrow> set_worker i (Running fut a) (s\<lparr>active_workers := active_workers s + 1\<rparr>))"

text \<open>Lines 72 to 75: the rest of the \<^verbatim>\<open>try\<close> block once \<^verbatim>\<open>wait_for\<close> resumes.\<close>

definition worker_try :: "nat option \<Rightarrow> outcome \<Rightarrow> pool \<Rightarrow> exn + pool" where
  "worker_try fut out s =
     (case out of
        Raises e \<Rightarrow> Inl e
      | Returns v \<Rightarrow> (case fut of None \<Rightarrow> Inr s | Some f \<Rightarrow> set_result f v s))"

definition unrecoverable :: "exn \<Rightarrow> bool" where
  "unrecoverable e = (e = KeyboardInterrupt \<or> e = MemoryError \<or> e = SystemExit)"

text \<open>
  The two \<^verbatim>\<open>except\<close> clauses, lines 76 to 88. The result holds the exception that
  leaves the handler, if one does: the one re-raised by line 80, or the one a statement of
  the handler raises.
\<close>

definition worker_except :: "nat option \<Rightarrow> exn \<Rightarrow> pool \<Rightarrow> exn option \<times> pool" where
  "worker_except fut e s =
     (if unrecoverable e then
        (case (case fut of None \<Rightarrow> Inr s | Some f \<Rightarrow> set_exception f e s) of
           Inl e' \<Rightarrow> (Some e', s)
         | Inr s1 \<Rightarrow> (Some e, s1\<lparr>exceptions := True\<rparr>))
      else
        (let s1 = s\<lparr>exceptions := True\<rparr>
         in case fut of
              Some f \<Rightarrow> (case set_exception f e s1 of
                           Inl e' \<Rightarrow> (Some e', s1)
                         | Inr s2 \<Rightarrow> (None, s2))
            | None \<Rightarrow> (None, log_record EXCEPTION Worker_call_failed s1)))"

text \<open>What a step returns to the coroutine that made it.\<close>

datatype ret = Ret "nat option" | Raised exn | Awaiting

text \<open>
  Lines 72 to 92, when \<^verbatim>\<open>wait_for\<close> resumes worker \<^verbatim>\<open>i\<close> with \<^verbatim>\<open>out\<close>: the
  \<^verbatim>\<open>try\<close> block, a handler if it raised, the \<^verbatim>\<open>finally\<close> clause, and then either the
  next turn of the loop or the end of the task.
\<close>

definition worker_resumed :: "nat \<Rightarrow> nat option \<Rightarrow> outcome \<Rightarrow> pool \<Rightarrow> ret \<times> pool" where
  "worker_resumed i fut out s =
     (case worker_try fut out s of
        Inr s1 \<Rightarrow> (Awaiting, set_worker i Idle (worker_finally True s1))
      | Inl e \<Rightarrow>
          (case worker_except fut e s of
             (Some e', s1) \<Rightarrow> (Raised e', set_worker i (Crashed e') (worker_finally True s1))
           | (None, s1) \<Rightarrow> (Awaiting, set_worker i Idle (worker_finally True s1))))"

subsection \<open>push, start, join\<close>

text \<open>
  Lines 138 to 145: what \<^verbatim>\<open>push\<close> does once \<^verbatim>\<open>queue.put\<close> has stored the item.
\<close>

definition push_stored :: "nat option \<Rightarrow> pool \<Rightarrow> ret \<times> pool" where
  "push_stored fut s =
     (let s1 = s\<lparr>total_queued := total_queued s + 1\<rparr>
      in case log_every_n s1 of
           None \<Rightarrow> (Ret fut, log_record DEBUG Received_new_job s1)
         | Some n \<Rightarrow>
             if n = 0 then (Raised ZeroDivisionError, s1)
             else if total_queued s1 mod n = 0
               then (Ret fut, log_record DEBUG Received_new_job (log_record INFO Pushed_items s1))
               else (Ret fut, log_record DEBUG Received_new_job s1))"

text \<open>Lines 130 and 131, with the reading \<^verbatim>\<open>now1\<close> of the clock.\<close>

definition stamp_first_push :: "int \<Rightarrow> pool \<Rightarrow> pool" where
  "stamp_first_push now1 s =
     (case first_push_dt s of None \<Rightarrow> s\<lparr>first_push_dt := Some now1\<rparr> | Some _ \<Rightarrow> s)"

text \<open>
  The condition of line 133 with the reading \<^verbatim>\<open>now2\<close> of the clock, and line 134: the
  exception the check raises, if it raises one. \<^verbatim>\<open>and\<close> does not evaluate its right
  operand when \<^verbatim>\<open>job_accept_duration\<close> is \<^verbatim>\<open>None\<close>.
\<close>

definition window_check :: "int \<Rightarrow> pool \<Rightarrow> exn option" where
  "window_check now2 s =
     (case job_accept_duration s of
        None \<Rightarrow> None
      | Some w \<Rightarrow>
          (case first_push_dt s of
             None \<Rightarrow> Some TypeError
           | Some t0 \<Rightarrow>
               (case w of
                  Seconds n \<Rightarrow> Some TypeError
                | Timedelta d \<Rightarrow> if now2 - t0 > d then Some TimeoutError else None)))"

text \<open>
  \<^verbatim>\<open>push\<close>, lines 130 to 145. \<^verbatim>\<open>now1\<close> is what \<^verbatim>\<open>self._time()\<close> returns at line 131 and
  \<^verbatim>\<open>now2\<close> what it returns at line 133. When the queue is full the call suspends in
  \<^verbatim>\<open>queue.put\<close> and waits among the putters.
\<close>

definition push :: "int \<Rightarrow> int \<Rightarrow> args \<Rightarrow> pool \<Rightarrow> ret \<times> pool" where
  "push now1 now2 a s =
     (let s1 = stamp_first_push now1 s
      in case window_check now2 s1 of
           Some e \<Rightarrow> (Raised e, s1)
         | None \<Rightarrow>
             (let (fut, s2) = (if return_futures s1
                               then (case new_future s1 of (f, s') \<Rightarrow> (Some f, s'))
                               else (None, s1))
              in if queue_full s2 then (Awaiting, s2\<lparr>putters := putters s2 @ [(fut, a)]\<rparr>)
                 else push_stored fut (put_nowait (Work fut a) s2)))"

text \<open>A suspended \<^verbatim>\<open>push\<close> resumes when the queue has a free slot.\<close>

definition push_resumed :: "nat \<Rightarrow> pool \<Rightarrow> ret \<times> pool" where
  "push_resumed k s =
     (case putters s ! k of
        (fut, a) \<Rightarrow>
          push_stored fut
            (put_nowait (Work fut a) (s\<lparr>putters := take k (putters s) @ drop (Suc k) (putters s)\<rparr>)))"

text \<open>\<^verbatim>\<open>start\<close>, lines 149 to 159; \<^verbatim>\<open>range(n)\<close> is empty for \<^verbatim>\<open>n \<le> 0\<close>.\<close>

definition start :: "pool \<Rightarrow> ret \<times> pool" where
  "start s =
     (if workers s \<noteq> None then (Raised AssertionError, s)
      else (Ret None,
            s\<lparr>exceptions := False, workers := Some (replicate (nat (num_workers s)) Idle)\<rparr>))"

text \<open>
  \<^verbatim>\<open>join\<close>, lines 163 to 170, up to its first \<^verbatim>\<open>put\<close>: \<^verbatim>\<open>not self._workers\<close> holds
  for \<^verbatim>\<open>None\<close> and for the empty list.
\<close>

definition join :: "pool \<Rightarrow> ret \<times> pool" where
  "join s =
     (case workers s of
        None \<Rightarrow> (Ret None, s)
      | Some ws \<Rightarrow>
          if ws = [] then (Ret None, s)
          else (let s1 = log_record INFO Joining s
                in if num_workers s1 \<le> 0 then (Awaiting, s1\<lparr>joiner := Gathering\<rparr>)
                   else (Awaiting, s1\<lparr>joiner := Putting (nat (num_workers s1))\<rparr>)))"

text \<open>Line 171: one \<^verbatim>\<open>Terminator\<close> stored, and the loop of line 170 goes on or ends.\<close>

definition join_put :: "nat \<Rightarrow> pool \<Rightarrow> pool" where
  "join_put k s =
     (put_nowait Terminator s)\<lparr>joiner := (if k = 0 then Gathering else Putting k)\<rparr>"

text \<open>
  Lines 173 to 183 when \<^verbatim>\<open>gather\<close> raises \<^verbatim>\<open>e\<close>, the exception that ended one of the
  workers: the handler logs and re-raises, the \<^verbatim>\<open>finally\<close> clause logs.
\<close>

definition join_raised :: "exn \<Rightarrow> pool \<Rightarrow> ret \<times> pool" where
  "join_raised e s =
     (Raised e,
      (log_record INFO Completed (log_record EXCEPTION Exception_joining s))\<lparr>joiner := NotJoining\<rparr>)"

text \<open>Lines 173 to 183 when \<^verbatim>\<open>gather\<close> returns: every worker has returned.\<close>

definition join_gathered :: "pool \<Rightarrow> ret \<times> pool" where
  "join_gathered s =
     (let s1 = s\<lparr>workers := None\<rparr>;
          s2 = (log_record INFO Completed s1)\<lparr>joiner := NotJoining\<rparr>
      in if exceptions s2 \<and> raise_on_join s2 then (Raised PoolException, s2)
         else (Ret None, s2))"

subsection \<open>The event loop\<close>

text \<open>
  One step of the event loop resumes one coroutine. A step that is not enabled (a worker
  waiting on an empty queue, a \<^verbatim>\<open>put\<close> waiting on a full one, a \<^verbatim>\<open>gather\<close> whose
  workers still run) gives \<open>None\<close>. One coroutine at a time is inside \<^verbatim>\<open>join\<close>.
\<close>

datatype action =
    Start
  | Push int int args
  | PushResume nat
  | Join
  | JoinPut
  | JoinGather
  | JoinRaise nat
  | WorkerGet nat
  | WorkerResume nat outcome

fun worker_at :: "pool \<Rightarrow> nat \<Rightarrow> worker option" where
  "worker_at s i =
     (case workers s of
        None \<Rightarrow> None
      | Some ws \<Rightarrow> if i < length ws then Some (ws ! i) else None)"

fun step :: "action \<Rightarrow> pool \<Rightarrow> (ret \<times> pool) option" where
  "step Start s = Some (start s)"
| "step (Push now1 now2 a) s = Some (push now1 now2 a s)"
| "step (PushResume k) s =
     (if k < length (putters s) \<and> \<not> queue_full s then Some (push_resumed k s) else None)"
| "step Join s = (if joiner s = NotJoining then Some (join s) else None)"
| "step JoinPut s =
     (case joiner s of
        Putting (Suc k) \<Rightarrow> if queue_full s then None else Some (Awaiting, join_put k s)
      | _ \<Rightarrow> None)"
| "step JoinGather s =
     (case (joiner s, workers s) of
        (Gathering, Some ws) \<Rightarrow>
          if list_all (\<lambda>w. w = Retired) ws then Some (join_gathered s) else None
      | _ \<Rightarrow> None)"
| "step (JoinRaise i) s =
     (case (joiner s, worker_at s i) of
        (Gathering, Some (Crashed e)) \<Rightarrow> Some (join_raised e s)
      | _ \<Rightarrow> None)"
| "step (WorkerGet i) s =
     (case (worker_at s i, queue s) of
        (Some Idle, x # q) \<Rightarrow>
          Some (case x of Terminator \<Rightarrow> Ret None | Work _ _ \<Rightarrow> Awaiting,
                worker_got i x (s\<lparr>queue := q\<rparr>))
      | _ \<Rightarrow> None)"
| "step (WorkerResume i out) s =
     (case worker_at s i of
        Some (Running fut a) \<Rightarrow> Some (worker_resumed i fut out s)
      | _ \<Rightarrow> None)"

text \<open>A schedule is a list of steps; it runs when each of its steps is enabled in turn.\<close>

fun run :: "action list \<Rightarrow> pool \<Rightarrow> pool option" where
  "run [] s = Some s"
| "run (a # as) s = (case step a s of None \<Rightarrow> None | Some (_, s') \<Rightarrow> run as s')"



section \<open>Notions for the proofs\<close>

text \<open>
  Nothing below is code of the pool: these are the notions in which the properties are
  stated and the invariants of the reachable states.
\<close>

text \<open>
  The futures referred to by an item of the queue, by a suspended \<^verbatim>\<open>push\<close> and by a
  worker; \<open>handles\<close> lists those in flight, \<open>live\<close> is the same as a multiset.
\<close>

fun opt_fut :: "nat option \<Rightarrow> nat list" where
  "opt_fut None = []"
| "opt_fut (Some f) = [f]"


fun worker_futs :: "worker \<Rightarrow> nat list" where
  "worker_futs (Running fut a) = opt_fut fut"
| "worker_futs _ = []"


definition futs_of :: "('a \<Rightarrow> nat list) \<Rightarrow> 'a list \<Rightarrow> nat multiset" where
  "futs_of f xs = mset (concat (map f xs))"








fun is_crashed :: "worker \<Rightarrow> bool" where
  "is_crashed (Crashed e) = True"
| "is_crashed _ = False"








section \<open>Properties\<close>

lemmas pool_defs =
  AsyncPool_def queue_full_def put_nowait_def task_done_def new_future_def is_pending_def
  set_result_def set_exception_def log_record_def set_worker_def worker_finally_def
  worker_got_def worker_try_def unrecoverable_def worker_except_def worker_resumed_def
  stamp_first_push_def window_check_def push_stored_def push_def push_resumed_def start_def join_def join_put_def join_raised_def
  join_gathered_def

subsection \<open>Handles in flight\<close>

lemma futs_of_simps [simp]:
  "futs_of f [] = {#}"
  "futs_of f (x # xs) = mset (f x) + futs_of f xs"
  "futs_of f (xs @ ys) = futs_of f xs + futs_of f ys"
  by (simp_all add: futs_of_def)




lemma futs_of_replicate_Idle [simp]: "futs_of worker_futs (replicate n Idle) = {#}"
  by (induction n) simp_all
















subsection \<open>Invariants of the reachable states\<close>











lemma count_list_replicate_Idle [simp]: "count_list (replicate n Idle) Retired = 0"
  by (induction n) simp_all



lemma not_crashed_replicate_Idle [simp]: "\<not> list_ex is_crashed (replicate n Idle)"
  by (induction n) simp_all
















subsection \<open>The flag and the handles along a schedule\<close>






subsection \<open>Progress of a join\<close>



subsection \<open>The count of active workers\<close>

text \<open>
  Claim C1 says that \<^verbatim>\<open>active_workers\<close> stays between 0 and the number of workers. A
  worker that takes a \<^verbatim>\<open>Terminator\<close> leaves the loop by the \<^verbatim>\<open>break\<close> of line 66,
  before line 68 has counted it, and the \<^verbatim>\<open>finally\<close> clause still subtracts one: a pool
  of one worker that is started and joined ends with \<^verbatim>\<open>active_workers = -1\<close>.
\<close>

theorem active_workers_after_join:
  "map_option active_workers
     (run [Start, Join, JoinPut, WorkerGet 0, JoinGather]
        (AsyncPool 1 1 None None False False None)) = Some (- 1)"
  by (simp add: pool_defs)

subsection \<open>The acceptance window\<close>

text \<open>
  Claim C3 says that with an acceptance window \<open>W\<close> a \<^verbatim>\<open>push\<close> made more than \<open>W\<close>
  after the first one fails with the acceptance-window-expired error
  (\<^verbatim>\<open>TimeoutError\<close>), and the docstring of \<^verbatim>\<open>__init__\<close> says the same of a window
  given as a number of seconds. Line 133 compares a \<^verbatim>\<open>timedelta\<close> with that number: with
  a window of 10 seconds every \<^verbatim>\<open>push\<close> raises \<^verbatim>\<open>TypeError\<close>, the first one and one made
  11 seconds later alike.
\<close>

theorem window_in_seconds:
  "fst (push 0 0 7 (AsyncPool 1 1 (Some (Seconds 10)) None False False None)) = Raised TypeError
   \<and> fst (push 11000000 11000000 8
        (snd (push 0 0 7 (AsyncPool 1 1 (Some (Seconds 10)) None False False None))))
       = Raised TypeError"
  by (simp add: pool_defs)

text \<open>
  What the claim says does hold of a window given as a \<^verbatim>\<open>timedelta\<close> \<open>w\<close>: a call of
  \<^verbatim>\<open>push\<close> whose clock reading is more than \<open>w\<close> after the first-push timestamp raises
  \<^verbatim>\<open>TimeoutError\<close>, whatever the queue holds; nothing of the pool changes but the
  timestamp (which only the pool's very first call sets); and every later call fails the
  same way.
\<close>

lemma push_after_window:
  assumes "job_accept_duration s = Some (Timedelta w)"
    and "t0 = (case first_push_dt s of None \<Rightarrow> now1 | Some t \<Rightarrow> t)"
    and "now2 - t0 > w"
  shows "push now1 now2 a s = (Raised TimeoutError, s\<lparr>first_push_dt := Some t0\<rparr>)
       \<and> (\<forall>n1 n2 b. now2 \<le> n2 \<longrightarrow>
            push n1 n2 b (s\<lparr>first_push_dt := Some t0\<rparr>)
              = (Raised TimeoutError, s\<lparr>first_push_dt := Some t0\<rparr>))"
  using assms
  by (auto simp: push_def stamp_first_push_def window_check_def Let_def split: option.splits)

text \<open>
  Claim C10 says that the first call of \<^verbatim>\<open>push\<close> never raises \<^verbatim>\<open>TimeoutError\<close>,
  because the elapsed time it measures is zero. The call reads the clock twice, at line 131
  for the timestamp and at line 133 for the check: with a window of \<^verbatim>\<open>timedelta(0)\<close> and
  a clock that has moved by one microsecond between the two readings, the first call
  fails.
\<close>

theorem first_push_expired:
  "fst (push 0 1 7 (AsyncPool 1 1 (Some (Timedelta 0)) None False False None))
     = Raised TimeoutError"
  by (simp add: pool_defs)

text \<open>
  Claim C10, amended: the first call of \<^verbatim>\<open>push\<close> records its first clock reading as the
  timestamp, and with a window given as a \<^verbatim>\<open>timedelta\<close> it does not raise
  \<^verbatim>\<open>TimeoutError\<close> when its second reading is at most the window later than the first,
  so never when both readings are equal and the window is not negative.
\<close>

theorem first_push_accepted:
  assumes "first_push_dt s = None"
    and "job_accept_duration s = Some (Timedelta w)"
    and "now2 - now1 \<le> w"
  shows "fst (push now1 now2 a s) \<noteq> Raised TimeoutError
       \<and> first_push_dt (snd (push now1 now2 a s)) = Some now1"
  using assms
  by (auto simp: push_def stamp_first_push_def window_check_def push_stored_def put_nowait_def
      new_future_def log_record_def Let_def split: option.splits prod.splits if_splits)

theorem first_push_accepted_witness:
  "fst (push 5 5 7 (AsyncPool 1 1 (Some (Timedelta 0)) None False False None))
     \<noteq> Raised TimeoutError
   \<and> first_push_dt (snd (push 5 5 7 (AsyncPool 1 1 (Some (Timedelta 0)) None False False None)))
     = Some 5"
  using first_push_accepted [of "AsyncPool 1 1 (Some (Timedelta 0)) None False False None" 0 5 5 7]
  by (simp add: AsyncPool_def)

subsection \<open>The capacity of the queue\<close>




subsection \<open>A job that fails\<close>





subsection \<open>The sticky flag\<close>



subsection \<open>Result handles\<close>



subsection \<open>What join raises\<close>




subsection \<open>Terminators\<close>




end
